theory Spec2Isabelle
  imports Complex_Main "HOL-Library.Word"
begin

unbundle bit_operations_syntax

section \<open>The native audio layer as the block sees it\<close>

text \<open>
  \<^verbatim>\<open>AudioBlock.cpp\<close> drives PortAudio. The library is not part of the repository, so
  its entry points are parameters of the model: a record of functions over a state
  \<open>'w\<close> of the native layer that the block cannot see. Calls that only query take the
  state; calls that allocate or start something return the next state as well.
  A \<^verbatim>\<open>PaError\<close> and a \<^verbatim>\<open>PaDeviceIndex\<close> are C ints, a \<^verbatim>\<open>PaSampleFormat\<close> is an
  unsigned long, a \<^verbatim>\<open>PaTime\<close> is a double. Latencies are modelled on the reals:
  rounding of the one addition and the one halving is outside the model.
  A pointer is an option: \<open>None\<close> is \<^verbatim>\<open>nullptr\<close>.
\<close>

type_synonym PaError = int
type_synonym PaDeviceIndex = int
type_synonym PaSampleFormat = "64 word"
type_synonym PaTime = real
type_synonym PaStream = nat

definition paNoError :: PaError where
  "paNoError = 0"

definition paNoDevice :: PaDeviceIndex where
  "paNoDevice = - 1"

definition paFloat32 :: PaSampleFormat where
  "paFloat32 = 0x00000001"

definition paInt32 :: PaSampleFormat where
  "paInt32 = 0x00000002"

definition paInt16 :: PaSampleFormat where
  "paInt16 = 0x00000008"

definition paInt8 :: PaSampleFormat where
  "paInt8 = 0x00000010"

definition paUInt8 :: PaSampleFormat where
  "paUInt8 = 0x00000020"

definition paNonInterleaved :: PaSampleFormat where
  "paNonInterleaved = 0x80000000"

record PaDeviceInfo =
  name :: string
  hostApi :: int
  defaultLowInputLatency :: PaTime
  defaultLowOutputLatency :: PaTime
  defaultHighInputLatency :: PaTime
  defaultHighOutputLatency :: PaTime

record PaStreamParameters =
  device :: PaDeviceIndex
  channelCount :: int
  sampleFormat :: PaSampleFormat
  suggestedLatency :: PaTime
  hostApiSpecificStreamInfo :: "nat option"

text \<open>
  The entry points the block calls. \<open>catalog\<close> is the device list that
  \<^verbatim>\<open>Pa_GetDeviceCount\<close> counts and \<^verbatim>\<open>Pa_GetDeviceInfo\<close> indexes.
  \<^verbatim>\<open>Pa_OpenStream\<close> receives the address of the block's stream pointer: it is given the
  pointer's old value and returns the value the pointer holds afterwards. Its remaining
  arguments are constants at the one call site (unspecified frames per buffer, no flags,
  no callback, no user data) and are left out. \<^verbatim>\<open>Pa_GetSampleSize\<close> and
  \<^verbatim>\<open>Pa_GetErrorText\<close> look their argument up in a table: they are functions of the
  argument alone.
\<close>

record 'w PortAudio =
  Pa_Initialize :: "'w \<Rightarrow> PaError \<times> 'w"
  catalog :: "'w \<Rightarrow> PaDeviceInfo list"
  Pa_GetDefaultInputDevice :: "'w \<Rightarrow> PaDeviceIndex"
  Pa_GetDefaultOutputDevice :: "'w \<Rightarrow> PaDeviceIndex"
  Pa_GetSampleSize :: "PaSampleFormat \<Rightarrow> PaError"
  Pa_IsFormatSupported ::
    "'w \<Rightarrow> PaStreamParameters option \<Rightarrow> PaStreamParameters option \<Rightarrow> real \<Rightarrow> PaError"
  Pa_OpenStream ::
    "'w \<Rightarrow> PaStream option \<Rightarrow> PaStreamParameters option \<Rightarrow> PaStreamParameters option
       \<Rightarrow> real \<Rightarrow> PaError \<times> PaStream option \<times> 'w"
  Pa_StartStream :: "'w \<Rightarrow> PaStream option \<Rightarrow> PaError \<times> 'w"
  Pa_GetErrorText :: "PaError \<Rightarrow> string"

definition Pa_GetDeviceCount :: "'w PortAudio \<Rightarrow> 'w \<Rightarrow> PaDeviceIndex" where
  "Pa_GetDeviceCount pa w = int (length (catalog pa w))"

definition Pa_GetDeviceInfo :: "'w PortAudio \<Rightarrow> 'w \<Rightarrow> PaDeviceIndex \<Rightarrow> PaDeviceInfo option" where
  "Pa_GetDeviceInfo pa w i =
     (if 0 \<le> i \<and> i < Pa_GetDeviceCount pa w then Some (catalog pa w ! nat i) else None)"

section \<open>The block\<close>

text \<open>
  What a call can throw. The four Pothos exception classes carry the two strings their
  constructors are given. \<open>std_out_of_range\<close> is what \<^verbatim>\<open>std::stoi\<close> throws for a value
  that does not fit an int.
\<close>

datatype error =
    Exception string string
  | NotFoundException string string
  | RangeException string string
  | InvalidArgumentException string string
  | std_out_of_range

text \<open>
  A call that reads through a null pointer has no behaviour that C++ defines: there is
  no block and no native state to speak of afterwards. Every other call has a defined
  outcome, whether it returns or throws.
\<close>

datatype 'a outcome =
    NullPointerDereference
  | Defined 'a

record AudioBlock =
  blockName :: string
  isSink :: bool
  stream :: "PaStream option"
  streamParams :: PaStreamParameters
  interleaved :: bool
  sendLabel :: bool
  reportLogger :: bool
  reportStderror :: bool
  backoffTime :: int
  readyTime :: int

subsection \<open>setupDevice\<close>

text \<open>\<^verbatim>\<open>::isdigit\<close> in the C locale: the ten characters 0 to 9.\<close>

definition isdigit :: "char \<Rightarrow> bool" where
  "isdigit c = (48 \<le> (of_char c :: nat) \<and> (of_char c :: nat) \<le> 57)"

text \<open>
  \<^verbatim>\<open>std::stoi\<close> at its one call site, where the argument is a non-empty string of
  decimal digits: the value of the digits, or \<^verbatim>\<open>std::out_of_range\<close> when it is
  above \<^verbatim>\<open>INT_MAX\<close>.
\<close>

definition decimal :: "string \<Rightarrow> int" where
  "decimal s = foldl (\<lambda>a c. 10 * a + (of_char c - 48)) 0 s"

definition stoi :: "string \<Rightarrow> error + int" where
  "stoi s = (if decimal s > 2147483647 then Inl std_out_of_range else Inr (decimal s))"

text \<open>
  The name loop of \<^verbatim>\<open>setupDevice\<close>, from index \<open>i\<close> on: the first index whose
  descriptor has the name, or \<open>None\<close> when the loop runs off the end.
\<close>

function findByName :: "PaDeviceInfo list \<Rightarrow> string \<Rightarrow> int \<Rightarrow> PaDeviceIndex option" where
  "findByName ds deviceName i =
     (if i < int (length ds)
      then (if name (ds ! nat i) = deviceName then Some i
            else findByName ds deviceName (i + 1))
      else None)"
  by pat_completeness auto
termination
  by (relation "measure (\<lambda>(ds, deviceName, i). nat (int (length ds) - i))") auto

declare findByName.simps [simp del]

text \<open>
  A member function that throws leaves every write it made before the throw in the
  object, so each operation returns the error, if any, together with the block as the
  call leaves it.
\<close>

definition setupDevice ::
  "'w PortAudio \<Rightarrow> 'w \<Rightarrow> AudioBlock \<Rightarrow> string \<Rightarrow> error option \<times> AudioBlock" where
  "setupDevice pa w b deviceName =
     (if Pa_GetDeviceCount pa w = 0
      then (Some (NotFoundException ''AudioBlock::setupDevice()'' ''No devices available''), b)
      else if deviceName = []
      then (None, b\<lparr>streamParams := (streamParams b)\<lparr>device :=
               (if isSink b then Pa_GetDefaultOutputDevice pa w
                else Pa_GetDefaultInputDevice pa w)\<rparr>\<rparr>)
      else if list_all isdigit deviceName
      then (case stoi deviceName of
              Inl e \<Rightarrow> (Some e, b)
            | Inr v \<Rightarrow>
                (let b' = b\<lparr>streamParams := (streamParams b)\<lparr>device := v\<rparr>\<rparr> in
                 if device (streamParams b') \<ge> Pa_GetDeviceCount pa w
                 then (Some (RangeException (''AudioBlock::setupDevice('' @ deviceName @ '')'')
                               ''Device index out of range''), b')
                 else (None, b')))
      else (case findByName (catalog pa w) deviceName 0 of
              Some i \<Rightarrow> (None, b\<lparr>streamParams := (streamParams b)\<lparr>device := i\<rparr>\<rparr>)
            | None \<Rightarrow>
                (Some (NotFoundException (''AudioBlock::setupDevice('' @ deviceName @ '')'')
                         ''No matching device''), b)))"

subsection \<open>setupStream\<close>

text \<open>
  The descriptor pointer is read without a null check: for a device index that has no
  descriptor the call dereferences null. The log line has no effect on the block: it
  prints the names of the device and of its host API, and the host API index of a
  descriptor that PortAudio hands out is one of its own, so that lookup is not a branch
  of the model. \<open>suggestedLatency\<close> and
  \<open>hostApiSpecificStreamInfo\<close> are written into the block's own parameter struct
  before anything is checked, and \<^verbatim>\<open>Pa_OpenStream\<close> writes the block's stream pointer
  directly.
\<close>

definition setupStream ::
  "'w PortAudio \<Rightarrow> 'w \<Rightarrow> AudioBlock \<Rightarrow> real
     \<Rightarrow> (error option \<times> AudioBlock \<times> 'w) outcome" where
  "setupStream pa w b sampRate =
     (case Pa_GetDeviceInfo pa w (device (streamParams b)) of
        None \<Rightarrow> NullPointerDereference
      | Some deviceInfo \<Rightarrow> Defined
     (let b1 = b\<lparr>streamParams := (streamParams b)\<lparr>suggestedLatency :=
                 (if isSink b
                  then (defaultLowOutputLatency deviceInfo + defaultHighOutputLatency deviceInfo) / 2
                  else (defaultLowInputLatency deviceInfo + defaultHighInputLatency deviceInfo) / 2)\<rparr>\<rparr>;
          b2 = b1\<lparr>streamParams := (streamParams b1)\<lparr>hostApiSpecificStreamInfo := None\<rparr>\<rparr>;
          requestedSize = Pa_GetSampleSize pa (sampleFormat (streamParams b2));
          err = Pa_IsFormatSupported pa w
                  (if isSink b2 then None else Some (streamParams b2))
                  (if isSink b2 then Some (streamParams b2) else None) sampRate
      in if err \<noteq> paNoError
         then (Some (Exception ''AudioBlock::setupStream()''
                       (''Pa_IsFormatSupported: '' @ Pa_GetErrorText pa err)), b2, w)
         else (case Pa_OpenStream pa w (stream b2)
                      (if isSink b2 then None else Some (streamParams b2))
                      (if isSink b2 then Some (streamParams b2) else None) sampRate of
                 (err', s, w') \<Rightarrow>
                   (let b3 = b2\<lparr>stream := s\<rparr> in
                    if err' \<noteq> paNoError
                    then (Some (Exception ''AudioBlock::setupStream()''
                                  (''Pa_OpenStream: '' @ Pa_GetErrorText pa err')), b3, w')
                    else if Pa_GetSampleSize pa (sampleFormat (streamParams b3)) \<noteq> requestedSize
                    then (Some (Exception ''AudioBlock::setupStream()''
                                  ''Pa_GetSampleSize mismatch''), b3, w')
                    else (None, b3, w')))))"

subsection \<open>setReportMode and activate\<close>

definition setReportMode :: "AudioBlock \<Rightarrow> string \<Rightarrow> error option \<times> AudioBlock" where
  "setReportMode b mode =
     (if mode = ''LOGGER'' \<or> mode = ''STDERROR'' \<or> mode = ''DISABLED''
      then (None, b\<lparr>reportLogger := (mode = ''LOGGER''),
                     reportStderror := (mode = ''STDERROR'')\<rparr>)
      else (Some (InvalidArgumentException (''AudioBlock::setReportMode('' @ mode @ '')'')
                    ''unknown report mode''), b))"

text \<open>\<open>now\<close> is what the clock reads when \<^verbatim>\<open>activate\<close> is entered.\<close>

definition activate ::
  "'w PortAudio \<Rightarrow> 'w \<Rightarrow> int \<Rightarrow> AudioBlock \<Rightarrow> error option \<times> AudioBlock \<times> 'w" where
  "activate pa w now b =
     (let b1 = b\<lparr>readyTime := now\<rparr> in
      case Pa_StartStream pa w (stream b1) of
        (err, w') \<Rightarrow>
          if err \<noteq> paNoError
          then (Some (Exception ''AudioBlock::activate()''
                        (''Pa_StartStream: '' @ Pa_GetErrorText pa err)), b1, w')
          else (None, b1\<lparr>sendLabel := True\<rparr>, w'))"

subsection \<open>The constructor\<close>

text \<open>
  A \<^verbatim>\<open>Pothos::DType\<close> compares equal to another when element type and dimension
  agree; \<open>DType s\<close> is the scalar type that the markup \<open>s\<close> names.
\<close>

record DType =
  elemName :: string
  dimension :: nat

definition DType :: "string \<Rightarrow> DType" where
  "DType s = \<lparr>elemName = s, dimension = 1\<rparr>"

text \<open>
  \<open>mem\<close> is the storage of the object before construction. The members that the
  initialiser list does not name are default-initialised: the parameter struct and the
  backoff duration keep whatever the storage holds, and the ready time, a
  \<^verbatim>\<open>time_point\<close>, starts at zero. The five type tests are five separate \<^verbatim>\<open>if\<close>s with
  no final \<^verbatim>\<open>else\<close>. The channel count is a \<^verbatim>\<open>size_t\<close> stored into an int.
  Registering the calls with the host has no effect on the block. A constructor that
  throws leaves no object.
\<close>

definition AudioBlock_ctor ::
  "'w PortAudio \<Rightarrow> 'w \<Rightarrow> AudioBlock \<Rightarrow> string \<Rightarrow> bool \<Rightarrow> DType \<Rightarrow> nat \<Rightarrow> string
     \<Rightarrow> (error + AudioBlock) \<times> 'w" where
  "AudioBlock_ctor pa w mem blockName' isSink' dtype numChans chanMode =
     (let this = mem\<lparr>blockName := blockName', isSink := isSink', stream := None,
                      interleaved := (chanMode = ''INTERLEAVED''), sendLabel := False,
                      reportLogger := False, reportStderror := True, readyTime := 0\<rparr> in
      case Pa_Initialize pa w of
        (err, w') \<Rightarrow>
          if err \<noteq> paNoError
          then (Inl (Exception ''AudioBlock()'' (''Pa_Initialize: '' @ Pa_GetErrorText pa err)), w')
          else
            (let p0 = (streamParams this)\<lparr>channelCount := sint (word_of_nat numChans :: 32 word)\<rparr>;
                 p1 = (if dtype = DType ''float32'' then p0\<lparr>sampleFormat := paFloat32\<rparr> else p0);
                 p2 = (if dtype = DType ''int32'' then p1\<lparr>sampleFormat := paInt32\<rparr> else p1);
                 p3 = (if dtype = DType ''int16'' then p2\<lparr>sampleFormat := paInt16\<rparr> else p2);
                 p4 = (if dtype = DType ''int8'' then p3\<lparr>sampleFormat := paInt8\<rparr> else p3);
                 p5 = (if dtype = DType ''uint8'' then p4\<lparr>sampleFormat := paUInt8\<rparr> else p4);
                 p6 = (if \<not> interleaved this
                       then p5\<lparr>sampleFormat := sampleFormat p5 OR paNonInterleaved\<rparr> else p5)
             in (Inr (this\<lparr>streamParams := p6\<rparr>), w')))"

section \<open>A small host for concrete runs\<close>

text \<open>
  Two devices, an input and an output, on one host API. The state of this host counts
  the streams it has opened; it supports 44100 Hz only.
\<close>

definition demo_devices :: "PaDeviceInfo list" where
  "demo_devices =
     [\<lparr>name = ''USB Mic'', hostApi = 0,
       defaultLowInputLatency = 1 / 100, defaultLowOutputLatency = 0,
       defaultHighInputLatency = 3 / 100, defaultHighOutputLatency = 0\<rparr>,
      \<lparr>name = ''Built-in Output'', hostApi = 0,
       defaultLowInputLatency = 0, defaultLowOutputLatency = 2 / 100,
       defaultHighInputLatency = 0, defaultHighOutputLatency = 6 / 100\<rparr>]"

definition demo_pa :: "nat PortAudio" where
  "demo_pa =
     \<lparr>Pa_Initialize = (\<lambda>w. (0, w)),
      catalog = (\<lambda>w. demo_devices),
      Pa_GetDefaultInputDevice = (\<lambda>w. 0),
      Pa_GetDefaultOutputDevice = (\<lambda>w. 1),
      Pa_GetSampleSize = (\<lambda>f. 4),
      Pa_IsFormatSupported = (\<lambda>w inp outp r. if r = 44100 then 0 else - 9997),
      Pa_OpenStream = (\<lambda>w s inp outp r. (0, Some (Suc w), Suc w)),
      Pa_StartStream = (\<lambda>w s. (0, w)),
      Pa_GetErrorText = (\<lambda>e. if e = - 9997 then ''Invalid sample rate'' else ''Unanticipated host error'')\<rparr>"

definition demo_mem :: AudioBlock where
  "demo_mem =
     \<lparr>blockName = [], isSink = False, stream = Some 7,
      streamParams = \<lparr>device = 0, channelCount = 0, sampleFormat = 0x55,
                      suggestedLatency = 0, hostApiSpecificStreamInfo = Some 3\<rparr>,
      interleaved = False, sendLabel = True, reportLogger = True, reportStderror = False,
      backoffTime = 0, readyTime = 9\<rparr>"

text \<open>
  A float32 sink with two interleaved channels, unopened, its device already resolved
  to the output device.
\<close>

definition demo_block :: AudioBlock where
  "demo_block =
     \<lparr>blockName = ''sink'', isSink = True, stream = None,
      streamParams = \<lparr>device = 1, channelCount = 2, sampleFormat = paFloat32,
                      suggestedLatency = 0, hostApiSpecificStreamInfo = Some 3\<rparr>,
      interleaved = True, sendLabel = False, reportLogger = False, reportStderror = True,
      backoffTime = 0, readyTime = 0\<rparr>"

section \<open>Properties\<close>

subsection \<open>The name loop\<close>

text \<open>
  What the loop returns is the least index at or after its start whose descriptor has
  the name; it returns nothing exactly when no descriptor from there on has it.
\<close>

lemma findByName_Some:
  "findByName ds n i = Some j \<Longrightarrow>
     i \<le> j \<and> j < int (length ds) \<and> name (ds ! nat j) = n \<and>
     (\<forall>k. i \<le> k \<and> k < j \<longrightarrow> name (ds ! nat k) \<noteq> n)"
proof (induction ds n i rule: findByName.induct)
  case (1 ds n i)
  show ?case
  proof (cases "i < int (length ds)")
    case False
    with "1.prems" show ?thesis by (simp add: findByName.simps)
  next
    case inrange: True
    show ?thesis
    proof (cases "name (ds ! nat i) = n")
      case True
      with inrange "1.prems" have ji: "j = i" by (simp add: findByName.simps)
      have "\<forall>k. i \<le> k \<and> k < i \<longrightarrow> name (ds ! nat k) \<noteq> n" by arith
      with ji inrange True show ?thesis by blast
    next
      case False
      with inrange "1.prems" have rec: "findByName ds n (i + 1) = Some j"
        by (simp add: findByName.simps)
      from "1.IH" [OF inrange False rec]
      have ih: "i + 1 \<le> j" "j < int (length ds)" "name (ds ! nat j) = n"
        "\<forall>k. i + 1 \<le> k \<and> k < j \<longrightarrow> name (ds ! nat k) \<noteq> n" by simp_all
      have "name (ds ! nat k) \<noteq> n" if "i \<le> k" "k < j" for k
      proof (cases "k = i")
        case True
        with False show ?thesis by simp
      next
        case False
        with that have "i + 1 \<le> k" by simp
        with ih(4) that show ?thesis by simp
      qed
      with ih show ?thesis by simp
    qed
  qed
qed

lemma findByName_None:
  "findByName ds n i = None \<Longrightarrow> i \<le> k \<Longrightarrow> k < int (length ds) \<Longrightarrow> name (ds ! nat k) \<noteq> n"
proof (induction ds n i rule: findByName.induct)
  case (1 ds n i)
  from "1.prems" have inrange: "i < int (length ds)" by simp
  from inrange "1.prems"(1) have ne: "name (ds ! nat i) \<noteq> n"
    by (auto simp: findByName.simps split: if_splits)
  with inrange "1.prems"(1) have rec: "findByName ds n (i + 1) = None"
    by (simp add: findByName.simps)
  show ?case
  proof (cases "k = i")
    case True
    with ne show ?thesis by simp
  next
    case False
    with "1.prems" have "i + 1 \<le> k" by simp
    from "1.IH" [OF inrange ne rec this "1.prems"(3)] show ?thesis .
  qed
qed

lemma findByName_None_iff:
  "findByName ds n 0 = None \<longleftrightarrow> n \<notin> name ` set ds"
proof
  assume none: "findByName ds n 0 = None"
  show "n \<notin> name ` set ds"
  proof
    assume "n \<in> name ` set ds"
    then obtain m where m: "m < length ds" "name (ds ! m) = n"
      by (auto simp: in_set_conv_nth)
    from findByName_None [OF none, of "int m"] m show False by simp
  qed
next
  assume notin: "n \<notin> name ` set ds"
  show "findByName ds n 0 = None"
  proof (cases "findByName ds n 0")
    case None
    then show ?thesis .
  next
    case (Some j)
    from findByName_Some [OF Some] have "0 \<le> j" "nat j < length ds" "name (ds ! nat j) = n"
      by auto
    then have "n \<in> name ` set ds" by (metis image_eqI nth_mem)
    with notin show ?thesis by simp
  qed
qed

subsection \<open>Digits\<close>

text \<open>
  Reading one more digit multiplies by ten and adds the digit; a string of digits has a
  value that is not negative.
\<close>

lemma decimal_step: "decimal (s @ [c]) = 10 * decimal s + (of_char c - 48)"
  by (simp add: decimal_def)

lemma isdigit_int: "isdigit c \<Longrightarrow> 48 \<le> (of_char c :: int) \<and> (of_char c :: int) \<le> 57"
proof -
  assume "isdigit c"
  then have "48 \<le> int (of_char c) \<and> int (of_char c) \<le> 57"
    by (simp add: isdigit_def)
  then show ?thesis by (simp only: of_nat_of_char)
qed

lemma decimal_nonneg: "list_all isdigit s \<Longrightarrow> 0 \<le> decimal s"
proof (induction s rule: rev_induct)
  case Nil
  then show ?case by (simp add: decimal_def)
next
  case (snoc c s)
  then have "0 \<le> decimal s" "isdigit c" by simp_all
  with isdigit_int [of c] show ?case by (simp add: decimal_step)
qed

subsection \<open>Replacing the format check\<close>

text \<open>The catalog does not depend on the format check.\<close>

lemma Pa_GetDeviceInfo_check_update:
  "Pa_GetDeviceInfo (pa\<lparr>Pa_IsFormatSupported := chk\<rparr>) w i = Pa_GetDeviceInfo pa w i"
  by (simp add: Pa_GetDeviceInfo_def Pa_GetDeviceCount_def)

subsection \<open>The three ways through setupStream\<close>

text \<open>
  Without a descriptor the call dereferences null. With one, either the format check
  answers an error, and the call throws with the two parameter fields written and
  nothing opened; or the native open is called, and the call throws exactly when the
  open reports an error. The size test after the open never fires: it asks
  \<^verbatim>\<open>Pa_GetSampleSize\<close> for the size of the format it asked about before the open, and
  nothing in between writes the format.
\<close>

lemma setupStream_undefined:
  "Pa_GetDeviceInfo pa w (device (streamParams b)) = None \<Longrightarrow>
     setupStream pa w b sampRate = NullPointerDereference"
  by (simp add: setupStream_def)

lemma setupStream_rejected:
  fixes pa :: "'w PortAudio"
  defines "params \<equiv> \<lambda>b d.
     (streamParams b)\<lparr>suggestedLatency :=
        (if isSink b then (defaultLowOutputLatency d + defaultHighOutputLatency d) / 2
         else (defaultLowInputLatency d + defaultHighInputLatency d) / 2),
        hostApiSpecificStreamInfo := None\<rparr>"
  assumes d: "Pa_GetDeviceInfo pa w (device (streamParams b)) = Some d"
    and rej: "Pa_IsFormatSupported pa w
        (if isSink b then None else Some (params b d))
        (if isSink b then Some (params b d) else None) sampRate = err"
       "err \<noteq> paNoError"
  shows "setupStream pa w b sampRate =
     Defined (Some (Exception ''AudioBlock::setupStream()''
                      (''Pa_IsFormatSupported: '' @ Pa_GetErrorText pa err)),
              b\<lparr>streamParams := params b d\<rparr>, w)"
  using d rej unfolding params_def
  by (cases "isSink b") (simp_all add: setupStream_def Let_def)

lemma setupStream_opened:
  fixes pa :: "'w PortAudio"
  defines "params \<equiv> \<lambda>b d.
     (streamParams b)\<lparr>suggestedLatency :=
        (if isSink b then (defaultLowOutputLatency d + defaultHighOutputLatency d) / 2
         else (defaultLowInputLatency d + defaultHighInputLatency d) / 2),
        hostApiSpecificStreamInfo := None\<rparr>"
  assumes d: "Pa_GetDeviceInfo pa w (device (streamParams b)) = Some d"
    and acc: "Pa_IsFormatSupported pa w
        (if isSink b then None else Some (params b d))
        (if isSink b then Some (params b d) else None) sampRate = paNoError"
    and opn: "Pa_OpenStream pa w (stream b)
        (if isSink b then None else Some (params b d))
        (if isSink b then Some (params b d) else None) sampRate = (e, s, w2)"
  shows "setupStream pa w b sampRate =
     Defined (if e \<noteq> paNoError
              then Some (Exception ''AudioBlock::setupStream()''
                           (''Pa_OpenStream: '' @ Pa_GetErrorText pa e))
              else None,
              b\<lparr>streamParams := params b d, stream := s\<rparr>, w2)"
  using d acc opn unfolding params_def
  by (cases "isSink b") (simp_all add: setupStream_def Let_def)

subsection \<open>Sample formats\<close>

text \<open>
  None of the five encodings has the bit of the non-interleaved flag, so the flag can be
  read back from a format that was built from one of them.
\<close>

lemma encodings_without_flag:
  "paFloat32 AND paNonInterleaved = 0" "paInt32 AND paNonInterleaved = 0"
  "paInt16 AND paNonInterleaved = 0" "paInt8 AND paNonInterleaved = 0"
  "paUInt8 AND paNonInterleaved = 0" "paNonInterleaved \<noteq> 0"
  by (simp_all add: paFloat32_def paInt32_def paInt16_def paInt8_def paUInt8_def
        paNonInterleaved_def)

lemma flag_after_or: "enc AND paNonInterleaved = 0 \<Longrightarrow>
   (enc OR paNonInterleaved) AND paNonInterleaved = paNonInterleaved"
  by (simp add: bit.conj_disj_distrib2)

text \<open>
  For each of the five supported types the constructor, once the native layer is
  initialised, stores the encoding of the type, with the non-interleaved flag or-ed in
  exactly when the channel mode is not \<^verbatim>\<open>INTERLEAVED\<close>.
\<close>

lemma ctor_supported_dtypes:
  assumes init: "fst (Pa_Initialize pa w) = paNoError"
    and dtype: "(dtype, enc) \<in> {(DType ''float32'', paFloat32), (DType ''int32'', paInt32),
                    (DType ''int16'', paInt16), (DType ''int8'', paInt8),
                    (DType ''uint8'', paUInt8)}"
  shows "\<exists>b. fst (AudioBlock_ctor pa w mem n s dtype c chanMode) = Inr b \<and>
       sampleFormat (streamParams b) =
         (if chanMode = ''INTERLEAVED'' then enc else enc OR paNonInterleaved) \<and>
       (sampleFormat (streamParams b) AND paNonInterleaved \<noteq> 0) = (chanMode \<noteq> ''INTERLEAVED'')"
proof -
  obtain e w' where pi: "Pa_Initialize pa w = (e, w')" by (cases "Pa_Initialize pa w")
  with init have pi: "Pa_Initialize pa w = (paNoError, w')" by simp
  from dtype have flag: "enc AND paNonInterleaved = 0"
    by (auto simp: encodings_without_flag)
  from dtype consider "dtype = DType ''float32''" "enc = paFloat32"
    | "dtype = DType ''int32''" "enc = paInt32"
    | "dtype = DType ''int16''" "enc = paInt16"
    | "dtype = DType ''int8''" "enc = paInt8"
    | "dtype = DType ''uint8''" "enc = paUInt8" by auto
  then have fmt: "\<exists>b. fst (AudioBlock_ctor pa w mem n s dtype c chanMode) = Inr b \<and>
       sampleFormat (streamParams b) =
         (if chanMode = ''INTERLEAVED'' then enc else enc OR paNonInterleaved)"
  proof cases
    case 1
    with pi show ?thesis by (simp add: AudioBlock_ctor_def DType_def)
  next
    case 2
    with pi show ?thesis by (simp add: AudioBlock_ctor_def DType_def)
  next
    case 3
    with pi show ?thesis by (simp add: AudioBlock_ctor_def DType_def)
  next
    case 4
    with pi show ?thesis by (simp add: AudioBlock_ctor_def DType_def)
  next
    case 5
    with pi show ?thesis by (simp add: AudioBlock_ctor_def DType_def)
  qed
  then obtain b where b: "fst (AudioBlock_ctor pa w mem n s dtype c chanMode) = Inr b"
    "sampleFormat (streamParams b) =
         (if chanMode = ''INTERLEAVED'' then enc else enc OR paNonInterleaved)" by blast
  have "(sampleFormat (streamParams b) AND paNonInterleaved \<noteq> 0) = (chanMode \<noteq> ''INTERLEAVED'')"
    using b(2) flag flag_after_or [OF flag] encodings_without_flag(6) by simp
  with b show ?thesis by blast
qed

subsection \<open>Numeric selectors that are read\<close>

text \<open>
  With an empty catalog \<^verbatim>\<open>setupDevice\<close> throws \<^verbatim>\<open>NotFoundException\<close> with the text
  \<^verbatim>\<open>No devices available\<close>, whatever the selector. With a device in the catalog and a
  non-empty selector of digits: a value from the device count up to \<^verbatim>\<open>INT_MAX\<close> throws
  the range exception; a value below the device count (the count being an int) is not
  negative, and the call succeeds and stores exactly that value; and a value above
  \<^verbatim>\<open>INT_MAX\<close> makes \<^verbatim>\<open>std::stoi\<close> throw before the range test is reached.
\<close>

lemma setupDevice_numeric:
  "(catalog pa w = [] \<longrightarrow>
      setupDevice pa w b deviceName =
        (Some (NotFoundException ''AudioBlock::setupDevice()'' ''No devices available''), b)) \<and>
   (catalog pa w \<noteq> [] \<and> deviceName \<noteq> [] \<and> list_all isdigit deviceName \<and>
    int (length (catalog pa w)) \<le> decimal deviceName \<and> decimal deviceName \<le> 2147483647 \<longrightarrow>
      fst (setupDevice pa w b deviceName) =
        Some (RangeException (''AudioBlock::setupDevice('' @ deviceName @ '')'')
                ''Device index out of range'')) \<and>
   (catalog pa w \<noteq> [] \<and> int (length (catalog pa w)) \<le> 2147483647 \<and>
    deviceName \<noteq> [] \<and> list_all isdigit deviceName \<and>
    decimal deviceName < int (length (catalog pa w)) \<longrightarrow>
      0 \<le> decimal deviceName \<and>
      setupDevice pa w b deviceName =
        (None, b\<lparr>streamParams := (streamParams b)\<lparr>device := decimal deviceName\<rparr>\<rparr>)) \<and>
   (catalog pa w \<noteq> [] \<and> deviceName \<noteq> [] \<and> list_all isdigit deviceName \<and>
    2147483647 < decimal deviceName \<longrightarrow>
      setupDevice pa w b deviceName = (Some std_out_of_range, b))"
  by (auto simp: setupDevice_def stoi_def Let_def Pa_GetDeviceCount_def decimal_nonneg)

text \<open>
  The selector \<^verbatim>\<open>0\<close> on an empty catalog, and \<^verbatim>\<open>2\<close>, \<^verbatim>\<open>01\<close> and \<^verbatim>\<open>2147483648\<close> on
  the two demo devices.
\<close>

lemma setupDevice_numeric_examples:
  "setupDevice (demo_pa\<lparr>catalog := (\<lambda>w. [])\<rparr>) 0 demo_block ''0'' =
     (Some (NotFoundException ''AudioBlock::setupDevice()'' ''No devices available''), demo_block) \<and>
   decimal ''2'' = 2 \<and>
   fst (setupDevice demo_pa 0 demo_block ''2'') =
     Some (RangeException ''AudioBlock::setupDevice(2)'' ''Device index out of range'') \<and>
   decimal ''01'' = 1 \<and>
   setupDevice demo_pa 0 demo_block ''01'' =
     (None, demo_block\<lparr>streamParams := (streamParams demo_block)\<lparr>device := 1\<rparr>\<rparr>) \<and>
   decimal ''2147483648'' = 2147483648 \<and>
   setupDevice demo_pa 0 demo_block ''2147483648'' = (Some std_out_of_range, demo_block)"
  using
    setupDevice_numeric [where pa = "demo_pa\<lparr>catalog := (\<lambda>w. [])\<rparr>" and w = 0
      and b = demo_block and deviceName = "''0''"]
    setupDevice_numeric [where pa = demo_pa and w = 0 and b = demo_block and deviceName = "''2''"]
    setupDevice_numeric [where pa = demo_pa and w = 0 and b = demo_block and deviceName = "''01''"]
    setupDevice_numeric [where pa = demo_pa and w = 0 and b = demo_block
      and deviceName = "''2147483648''"]
  by (simp add: demo_pa_def demo_devices_def isdigit_def decimal_def)

subsection \<open>Device resolution: how a selector is classified\<close>

text \<open>
  Claim C1. On a catalog that has a device, \<^verbatim>\<open>setupDevice\<close> looks at the selector in a
  fixed order. The empty selector stores the default device of the block's direction:
  the default output for a sink, the default input otherwise. A non-empty selector of
  decimal digits only is read as a number and never compared with a name: the call
  stores the number and succeeds when it is below the device count, throws the range
  exception when it is not, and the parser throws when the number does not fit an int.
  Any other selector is compared with the names by the loop: when some device has
  exactly that name the call stores the least index that has it, and when none has, the
  call throws \<^verbatim>\<open>NotFoundException\<close> with the text \<^verbatim>\<open>No matching device\<close> and leaves the
  block as it was. (The empty catalog is rejected before the selector is looked at.)
\<close>

theorem setupDevice_classification:
  assumes nonempty: "catalog pa w \<noteq> []"
  shows
    "(deviceName = [] \<longrightarrow>
        setupDevice pa w b deviceName =
          (None, b\<lparr>streamParams := (streamParams b)\<lparr>device :=
                     (if isSink b then Pa_GetDefaultOutputDevice pa w
                      else Pa_GetDefaultInputDevice pa w)\<rparr>\<rparr>)) \<and>
     (deviceName \<noteq> [] \<and> list_all isdigit deviceName \<longrightarrow>
        setupDevice pa w b deviceName =
          (if decimal deviceName > 2147483647 then (Some std_out_of_range, b)
           else (if decimal deviceName \<ge> int (length (catalog pa w))
                 then Some (RangeException (''AudioBlock::setupDevice('' @ deviceName @ '')'')
                              ''Device index out of range'')
                 else None,
                 b\<lparr>streamParams := (streamParams b)\<lparr>device := decimal deviceName\<rparr>\<rparr>))) \<and>
     (deviceName \<noteq> [] \<and> \<not> list_all isdigit deviceName \<and>
      deviceName \<in> name ` set (catalog pa w) \<longrightarrow>
        (\<exists>i. 0 \<le> i \<and> i < int (length (catalog pa w)) \<and>
             name (catalog pa w ! nat i) = deviceName \<and>
             (\<forall>j. 0 \<le> j \<and> j < i \<longrightarrow> name (catalog pa w ! nat j) \<noteq> deviceName) \<and>
             setupDevice pa w b deviceName =
               (None, b\<lparr>streamParams := (streamParams b)\<lparr>device := i\<rparr>\<rparr>))) \<and>
     (deviceName \<noteq> [] \<and> \<not> list_all isdigit deviceName \<and>
      deviceName \<notin> name ` set (catalog pa w) \<longrightarrow>
        setupDevice pa w b deviceName =
          (Some (NotFoundException (''AudioBlock::setupDevice('' @ deviceName @ '')'')
                   ''No matching device''), b))"
proof -
  from nonempty have count: "Pa_GetDeviceCount pa w \<noteq> 0"
    by (simp add: Pa_GetDeviceCount_def)
  have empty: "setupDevice pa w b [] =
          (None, b\<lparr>streamParams := (streamParams b)\<lparr>device :=
                     (if isSink b then Pa_GetDefaultOutputDevice pa w
                      else Pa_GetDefaultInputDevice pa w)\<rparr>\<rparr>)"
    using count by (simp add: setupDevice_def)
  have numeric: "setupDevice pa w b deviceName =
          (if decimal deviceName > 2147483647 then (Some std_out_of_range, b)
           else (if decimal deviceName \<ge> int (length (catalog pa w))
                 then Some (RangeException (''AudioBlock::setupDevice('' @ deviceName @ '')'')
                              ''Device index out of range'')
                 else None,
                 b\<lparr>streamParams := (streamParams b)\<lparr>device := decimal deviceName\<rparr>\<rparr>))"
    if "deviceName \<noteq> []" "list_all isdigit deviceName"
    using count that by (simp add: setupDevice_def stoi_def Let_def Pa_GetDeviceCount_def)
  have found: "\<exists>i. 0 \<le> i \<and> i < int (length (catalog pa w)) \<and>
             name (catalog pa w ! nat i) = deviceName \<and>
             (\<forall>j. 0 \<le> j \<and> j < i \<longrightarrow> name (catalog pa w ! nat j) \<noteq> deviceName) \<and>
             setupDevice pa w b deviceName =
               (None, b\<lparr>streamParams := (streamParams b)\<lparr>device := i\<rparr>\<rparr>)"
    if ne: "deviceName \<noteq> []" and nd: "\<not> list_all isdigit deviceName"
      and isin: "deviceName \<in> name ` set (catalog pa w)"
  proof -
    from isin have "findByName (catalog pa w) deviceName 0 \<noteq> None"
      by (simp add: findByName_None_iff)
    then obtain i where i: "findByName (catalog pa w) deviceName 0 = Some i" by auto
    from findByName_Some [OF i]
    have props: "0 \<le> i" "i < int (length (catalog pa w))"
      "name (catalog pa w ! nat i) = deviceName"
      "\<forall>j. 0 \<le> j \<and> j < i \<longrightarrow> name (catalog pa w ! nat j) \<noteq> deviceName"
      by simp_all
    have "setupDevice pa w b deviceName =
            (None, b\<lparr>streamParams := (streamParams b)\<lparr>device := i\<rparr>\<rparr>)"
      using count ne nd i by (simp add: setupDevice_def)
    with props show ?thesis by blast
  qed
  have missing: "setupDevice pa w b deviceName =
          (Some (NotFoundException (''AudioBlock::setupDevice('' @ deviceName @ '')'')
                   ''No matching device''), b)"
    if ne: "deviceName \<noteq> []" and nd: "\<not> list_all isdigit deviceName"
      and notin: "deviceName \<notin> name ` set (catalog pa w)"
  proof -
    from notin have "findByName (catalog pa w) deviceName 0 = None"
      by (simp add: findByName_None_iff)
    with count ne nd show ?thesis by (simp add: setupDevice_def)
  qed
  from empty numeric found missing show ?thesis by blast
qed

text \<open>
  On a catalog whose third device is named \<^verbatim>\<open>1\<close>: the empty selector on a source,
  the selector \<^verbatim>\<open>1\<close> (index 1, not the device of that name), a name, and the same name
  in another case.
\<close>

theorem setupDevice_classification_witness:
  "catalog (demo_pa\<lparr>catalog := (\<lambda>w. demo_devices @ [(hd demo_devices)\<lparr>name := ''1''\<rparr>])\<rparr>) 0 \<noteq> [] \<and>
   setupDevice (demo_pa\<lparr>catalog := (\<lambda>w. demo_devices @ [(hd demo_devices)\<lparr>name := ''1''\<rparr>])\<rparr>) 0
       (demo_block\<lparr>isSink := False\<rparr>) [] =
     (None, demo_block\<lparr>isSink := False, streamParams := (streamParams demo_block)\<lparr>device := 0\<rparr>\<rparr>) \<and>
   setupDevice (demo_pa\<lparr>catalog := (\<lambda>w. demo_devices @ [(hd demo_devices)\<lparr>name := ''1''\<rparr>])\<rparr>) 0
       demo_block ''1'' =
     (None, demo_block\<lparr>streamParams := (streamParams demo_block)\<lparr>device := 1\<rparr>\<rparr>) \<and>
   setupDevice (demo_pa\<lparr>catalog := (\<lambda>w. demo_devices @ [(hd demo_devices)\<lparr>name := ''1''\<rparr>])\<rparr>) 0
       demo_block ''USB Mic'' =
     (None, demo_block\<lparr>streamParams := (streamParams demo_block)\<lparr>device := 0\<rparr>\<rparr>) \<and>
   setupDevice (demo_pa\<lparr>catalog := (\<lambda>w. demo_devices @ [(hd demo_devices)\<lparr>name := ''1''\<rparr>])\<rparr>) 0
       demo_block ''usb mic'' =
     (Some (NotFoundException ''AudioBlock::setupDevice(usb mic)'' ''No matching device''),
      demo_block)"
  using
    setupDevice_classification [where pa = "demo_pa\<lparr>catalog := (\<lambda>w. demo_devices @ [(hd demo_devices)\<lparr>name := ''1''\<rparr>])\<rparr>"
      and w = 0 and b = "demo_block\<lparr>isSink := False\<rparr>" and deviceName = "[]"]
    setupDevice_classification [where pa = "demo_pa\<lparr>catalog := (\<lambda>w. demo_devices @ [(hd demo_devices)\<lparr>name := ''1''\<rparr>])\<rparr>"
      and w = 0 and b = demo_block and deviceName = "''1''"]
    setupDevice_classification [where pa = "demo_pa\<lparr>catalog := (\<lambda>w. demo_devices @ [(hd demo_devices)\<lparr>name := ''1''\<rparr>])\<rparr>"
      and w = 0 and b = demo_block and deviceName = "''USB Mic''"]
    setupDevice_classification [where pa = "demo_pa\<lparr>catalog := (\<lambda>w. demo_devices @ [(hd demo_devices)\<lparr>name := ''1''\<rparr>])\<rparr>"
      and w = 0 and b = demo_block and deviceName = "''usb mic''"]
  by (simp add: demo_pa_def demo_devices_def demo_block_def isdigit_def decimal_def nth_Cons'
        split: if_splits)

subsection \<open>The stream handle after a failed negotiation\<close>



subsection \<open>An unsupported data type\<close>

text \<open>
  Claim C3 says that the constructor fails for a data type outside the five supported
  ones. It does not: for \<^verbatim>\<open>int64\<close> none of the five tests fires, the constructor returns
  a block, and the sample format is whatever the storage held, with the non-interleaved
  flag or-ed into that when the channel mode is not \<^verbatim>\<open>INTERLEAVED\<close>.
\<close>

theorem ctor_unsupported_dtype:
  "fst (AudioBlock_ctor demo_pa 0 mem ''source'' False (DType ''int64'') 1 ''INTERLEAVED'') =
     Inr (mem\<lparr>blockName := ''source'', isSink := False, stream := None, interleaved := True,
               sendLabel := False, reportLogger := False, reportStderror := True,
               readyTime := 0,
               streamParams := (streamParams mem)\<lparr>channelCount := 1\<rparr>\<rparr>) \<and>
   fst (AudioBlock_ctor demo_pa 0 mem ''source'' False (DType ''int64'') 1 ''PLANAR'') =
     Inr (mem\<lparr>blockName := ''source'', isSink := False, stream := None, interleaved := False,
               sendLabel := False, reportLogger := False, reportStderror := True,
               readyTime := 0,
               streamParams := (streamParams mem)\<lparr>channelCount := 1,
                 sampleFormat := sampleFormat (streamParams mem) OR paNonInterleaved\<rparr>\<rparr>)"
  by (simp add: AudioBlock_ctor_def demo_pa_def DType_def paNoError_def)

subsection \<open>What a failed call leaves in the configuration\<close>




subsection \<open>A numeric selector that does not fit an int\<close>

text \<open>
  Claim C5 says that every selector of digits whose value is at least the device count
  fails with the range exception. For \<^verbatim>\<open>2147483648\<close> on two devices it does not: the
  value never reaches the range test, because \<^verbatim>\<open>std::stoi\<close> throws
  \<^verbatim>\<open>std::out_of_range\<close>, which is not the range exception and not a Pothos exception
  at all.
\<close>

theorem setupDevice_overflow:
  "''2147483648'' \<noteq> [] \<and> list_all isdigit ''2147483648'' \<and>
   Pa_GetDeviceCount demo_pa 0 = 2 \<and>
   decimal ''2147483648'' = 2147483648 \<and>
   fst (setupDevice demo_pa 0 demo_block ''2147483648'') = Some std_out_of_range \<and>
   fst (setupDevice demo_pa 0 demo_block ''2147483648'') \<noteq>
     Some (RangeException ''AudioBlock::setupDevice(2147483648)'' ''Device index out of range'')"
  by (simp add: setupDevice_def stoi_def demo_pa_def demo_devices_def isdigit_def decimal_def
        Pa_GetDeviceCount_def)

subsection \<open>No default device\<close>

text \<open>
  Claim C6 says that the empty selector fails when the catalog has no default device
  for the block's direction. It does not: on a host whose default output is
  \<^verbatim>\<open>paNoDevice\<close>, \<^verbatim>\<open>setupDevice\<close> returns normally on the demo sink and stores
  \<^verbatim>\<open>paNoDevice\<close> as the device index; the \<^verbatim>\<open>setupStream\<close> that follows reads through the
  null descriptor of that index.
\<close>

theorem setupDevice_no_default:
  "Pa_GetDefaultOutputDevice (demo_pa\<lparr>Pa_GetDefaultOutputDevice := (\<lambda>w. paNoDevice)\<rparr>) 0 = paNoDevice \<and>
   setupDevice (demo_pa\<lparr>Pa_GetDefaultOutputDevice := (\<lambda>w. paNoDevice)\<rparr>) 0 demo_block [] =
     (None, demo_block\<lparr>streamParams := (streamParams demo_block)\<lparr>device := paNoDevice\<rparr>\<rparr>) \<and>
   setupStream (demo_pa\<lparr>Pa_GetDefaultOutputDevice := (\<lambda>w. paNoDevice)\<rparr>) 0
          (demo_block\<lparr>streamParams := (streamParams demo_block)\<lparr>device := paNoDevice\<rparr>\<rparr>) 44100 =
     NullPointerDereference"
  by (simp add: setupDevice_def setupStream_def demo_pa_def demo_block_def demo_devices_def
        Pa_GetDeviceCount_def Pa_GetDeviceInfo_def paNoDevice_def)

subsection \<open>Negotiation\<close>

text \<open>
  Claim C7. When \<^verbatim>\<open>setupStream\<close> succeeds, the descriptor of the block's device
  exists, and the block's parameters are the old ones with \<open>suggestedLatency\<close> set to
  half the sum of the descriptor's low and high default latencies of the block's
  direction (output for a sink, input otherwise) and the host-specific pointer cleared;
  the format check, asked with these parameters on the side of the block's direction and
  with no parameters on the other side, answered \<^verbatim>\<open>paNoError\<close>.
  When that check answers an error, the call throws a \<^verbatim>\<open>Pothos::Exception\<close> whose text
  is \<^verbatim>\<open>Pa_IsFormatSupported: \<close> followed by the native text of the error.
  The check is asked nothing else: a check that agrees with the native one on this one
  question gives the same outcome, whatever it answers elsewhere.
\<close>

theorem setupStream_negotiation:
  fixes pa :: "'w PortAudio"
  defines "mid \<equiv> \<lambda>b d.
     if isSink b then (defaultLowOutputLatency d + defaultHighOutputLatency d) / 2
     else (defaultLowInputLatency d + defaultHighInputLatency d) / 2"
  defines "params \<equiv> \<lambda>b d.
     (streamParams b)\<lparr>suggestedLatency := mid b d, hostApiSpecificStreamInfo := None\<rparr>"
  shows
    "(setupStream pa w b sampRate = Defined (None, b', w') \<longrightarrow>
        (\<exists>d. Pa_GetDeviceInfo pa w (device (streamParams b)) = Some d \<and>
             streamParams b' = params b d \<and>
             suggestedLatency (streamParams b') = mid b d \<and>
             Pa_IsFormatSupported pa w
               (if isSink b then None else Some (params b d))
               (if isSink b then Some (params b d) else None) sampRate = paNoError)) \<and>
     (Pa_GetDeviceInfo pa w (device (streamParams b)) = Some d \<and>
      Pa_IsFormatSupported pa w
        (if isSink b then None else Some (params b d))
        (if isSink b then Some (params b d) else None) sampRate = err \<and>
      err \<noteq> paNoError \<longrightarrow>
        setupStream pa w b sampRate =
          Defined (Some (Exception ''AudioBlock::setupStream()''
                           (''Pa_IsFormatSupported: '' @ Pa_GetErrorText pa err)),
                   b\<lparr>streamParams := params b d\<rparr>, w)) \<and>
     (Pa_GetDeviceInfo pa w (device (streamParams b)) = Some d \<and>
      chk w (if isSink b then None else Some (params b d))
            (if isSink b then Some (params b d) else None) sampRate =
        Pa_IsFormatSupported pa w
          (if isSink b then None else Some (params b d))
          (if isSink b then Some (params b d) else None) sampRate \<longrightarrow>
        setupStream (pa\<lparr>Pa_IsFormatSupported := chk\<rparr>) w b sampRate =
          setupStream pa w b sampRate)"
proof (intro conjI impI)
  assume ok: "setupStream pa w b sampRate = Defined (None, b', w')"
  then obtain d where d: "Pa_GetDeviceInfo pa w (device (streamParams b)) = Some d"
    by (cases "Pa_GetDeviceInfo pa w (device (streamParams b))") (auto simp: setupStream_def)
  have chk: "Pa_IsFormatSupported pa w
               (if isSink b then None else Some (params b d))
               (if isSink b then Some (params b d) else None) sampRate = paNoError"
  proof (rule ccontr)
    assume "Pa_IsFormatSupported pa w
               (if isSink b then None else Some (params b d))
               (if isSink b then Some (params b d) else None) sampRate \<noteq> paNoError"
    from setupStream_rejected [OF d refl this [unfolded params_def mid_def]] ok
    show False by simp
  qed
  obtain x s w2 where opn: "Pa_OpenStream pa w (stream b)
               (if isSink b then None else Some (params b d))
               (if isSink b then Some (params b d) else None) sampRate = (x, s, w2)"
    by (cases "Pa_OpenStream pa w (stream b)
               (if isSink b then None else Some (params b d))
               (if isSink b then Some (params b d) else None) sampRate") auto
  from setupStream_opened [OF d chk [unfolded params_def mid_def]
      opn [unfolded params_def mid_def]] ok
  have "b' = b\<lparr>streamParams := params b d, stream := s\<rparr>"
    unfolding params_def mid_def by simp
  then have "streamParams b' = params b d" by simp
  moreover from this have "suggestedLatency (streamParams b') = mid b d"
    by (simp add: params_def)
  ultimately show "\<exists>d. Pa_GetDeviceInfo pa w (device (streamParams b)) = Some d \<and>
             streamParams b' = params b d \<and>
             suggestedLatency (streamParams b') = mid b d \<and>
             Pa_IsFormatSupported pa w
               (if isSink b then None else Some (params b d))
               (if isSink b then Some (params b d) else None) sampRate = paNoError"
    using d chk by blast
next
  assume a: "Pa_GetDeviceInfo pa w (device (streamParams b)) = Some d \<and>
      Pa_IsFormatSupported pa w
        (if isSink b then None else Some (params b d))
        (if isSink b then Some (params b d) else None) sampRate = err \<and>
      err \<noteq> paNoError"
  then have d: "Pa_GetDeviceInfo pa w (device (streamParams b)) = Some d"
    and e: "Pa_IsFormatSupported pa w
        (if isSink b then None else Some (params b d))
        (if isSink b then Some (params b d) else None) sampRate = err"
    and ne: "err \<noteq> paNoError" by simp_all
  from setupStream_rejected [OF d e [unfolded params_def mid_def] ne]
  show "setupStream pa w b sampRate =
          Defined (Some (Exception ''AudioBlock::setupStream()''
                           (''Pa_IsFormatSupported: '' @ Pa_GetErrorText pa err)),
                   b\<lparr>streamParams := params b d\<rparr>, w)"
    unfolding params_def mid_def .
next
  assume "Pa_GetDeviceInfo pa w (device (streamParams b)) = Some d \<and>
      chk w (if isSink b then None else Some (params b d))
            (if isSink b then Some (params b d) else None) sampRate =
        Pa_IsFormatSupported pa w
          (if isSink b then None else Some (params b d))
          (if isSink b then Some (params b d) else None) sampRate"
  then have d: "Pa_GetDeviceInfo pa w (device (streamParams b)) = Some d"
    and same: "chk w (if isSink b then None else Some (params b d))
            (if isSink b then Some (params b d) else None) sampRate =
        Pa_IsFormatSupported pa w
          (if isSink b then None else Some (params b d))
          (if isSink b then Some (params b d) else None) sampRate"
    by simp_all
  show "setupStream (pa\<lparr>Pa_IsFormatSupported := chk\<rparr>) w b sampRate =
          setupStream pa w b sampRate"
  proof (cases "isSink b")
    case True
    with same d show ?thesis
      unfolding params_def mid_def
      by (simp add: setupStream_def Let_def Pa_GetDeviceInfo_check_update split: prod.splits)
  next
    case False
    with same d show ?thesis
      unfolding params_def mid_def
      by (simp add: setupStream_def Let_def Pa_GetDeviceInfo_check_update split: prod.splits)
  qed
qed

text \<open>
  The demo sink at 44100 Hz and at 48000 Hz, and with a format check that rejects every
  question that passes input parameters.
\<close>

theorem setupStream_negotiation_witness:
  "setupStream demo_pa 0 demo_block 44100 =
     Defined (None,
      demo_block\<lparr>stream := Some 1,
        streamParams := (streamParams demo_block)\<lparr>suggestedLatency := (2 / 100 + 6 / 100) / 2,
                          hostApiSpecificStreamInfo := None\<rparr>\<rparr>, 1) \<and>
   Pa_GetDeviceInfo demo_pa 0 (device (streamParams demo_block)) = Some (demo_devices ! 1) \<and>
   Pa_IsFormatSupported demo_pa 0 None
     (Some ((streamParams demo_block)\<lparr>suggestedLatency := (2 / 100 + 6 / 100) / 2,
              hostApiSpecificStreamInfo := None\<rparr>)) 44100 = paNoError \<and>
   Pa_IsFormatSupported demo_pa 0 None
     (Some ((streamParams demo_block)\<lparr>suggestedLatency := (2 / 100 + 6 / 100) / 2,
              hostApiSpecificStreamInfo := None\<rparr>)) 48000 = - 9997 \<and>
   setupStream demo_pa 0 demo_block 48000 =
     Defined (Some (Exception ''AudioBlock::setupStream()''
                      ''Pa_IsFormatSupported: Invalid sample rate''),
              demo_block\<lparr>streamParams := (streamParams demo_block)\<lparr>suggestedLatency :=
                                               (2 / 100 + 6 / 100) / 2,
                                             hostApiSpecificStreamInfo := None\<rparr>\<rparr>, 0) \<and>
   setupStream
     (demo_pa\<lparr>Pa_IsFormatSupported :=
        (\<lambda>w inp outp r. if inp = None then Pa_IsFormatSupported demo_pa w inp outp r else - 1)\<rparr>)
     0 demo_block 44100 = setupStream demo_pa 0 demo_block 44100"
proof -
  have run: "setupStream demo_pa 0 demo_block 44100 =
     Defined (None,
      demo_block\<lparr>stream := Some 1,
        streamParams := (streamParams demo_block)\<lparr>suggestedLatency := (2 / 100 + 6 / 100) / 2,
                          hostApiSpecificStreamInfo := None\<rparr>\<rparr>, 1)"
    by (simp add: setupStream_def demo_pa_def demo_block_def demo_devices_def
          Pa_GetDeviceInfo_def Pa_GetDeviceCount_def paNoError_def Let_def)
  have info: "Pa_GetDeviceInfo demo_pa 0 (device (streamParams demo_block)) = Some (demo_devices ! 1)"
    by (simp add: demo_pa_def demo_block_def demo_devices_def
          Pa_GetDeviceInfo_def Pa_GetDeviceCount_def)
  have rej: "Pa_IsFormatSupported demo_pa 0 None
     (Some ((streamParams demo_block)\<lparr>suggestedLatency := (2 / 100 + 6 / 100) / 2,
              hostApiSpecificStreamInfo := None\<rparr>)) 48000 = - 9997"
    and acc: "Pa_IsFormatSupported demo_pa 0 None
     (Some ((streamParams demo_block)\<lparr>suggestedLatency := (2 / 100 + 6 / 100) / 2,
              hostApiSpecificStreamInfo := None\<rparr>)) 44100 = paNoError"
    by (simp_all add: demo_pa_def paNoError_def)
  have pre: "Pa_GetDeviceInfo demo_pa 0 (device (streamParams demo_block)) = Some (demo_devices ! 1) \<and>
      Pa_IsFormatSupported demo_pa 0
        (if isSink demo_block then None
         else Some ((streamParams demo_block)\<lparr>suggestedLatency :=
                (if isSink demo_block
                 then (defaultLowOutputLatency (demo_devices ! 1) +
                       defaultHighOutputLatency (demo_devices ! 1)) / 2
                 else (defaultLowInputLatency (demo_devices ! 1) +
                       defaultHighInputLatency (demo_devices ! 1)) / 2),
                hostApiSpecificStreamInfo := None\<rparr>))
        (if isSink demo_block
         then Some ((streamParams demo_block)\<lparr>suggestedLatency :=
                (if isSink demo_block
                 then (defaultLowOutputLatency (demo_devices ! 1) +
                       defaultHighOutputLatency (demo_devices ! 1)) / 2
                 else (defaultLowInputLatency (demo_devices ! 1) +
                       defaultHighInputLatency (demo_devices ! 1)) / 2),
                hostApiSpecificStreamInfo := None\<rparr>)
         else None) 48000 = - 9997 \<and>
      (- 9997 :: int) \<noteq> paNoError"
    using info by (simp add: demo_pa_def paNoError_def)
  have "setupStream demo_pa 0 demo_block 48000 =
     Defined (Some (Exception ''AudioBlock::setupStream()''
             (''Pa_IsFormatSupported: '' @ Pa_GetErrorText demo_pa (- 9997))),
             demo_block\<lparr>streamParams := (streamParams demo_block)\<lparr>suggestedLatency :=
                (if isSink demo_block
                 then (defaultLowOutputLatency (demo_devices ! 1) +
                       defaultHighOutputLatency (demo_devices ! 1)) / 2
                 else (defaultLowInputLatency (demo_devices ! 1) +
                       defaultHighInputLatency (demo_devices ! 1)) / 2),
                hostApiSpecificStreamInfo := None\<rparr>\<rparr>, 0)"
    by (rule setupStream_negotiation [where pa = demo_pa and w = 0 and b = demo_block
      and sampRate = 48000 and d = "demo_devices ! 1"
      and err = "- 9997", THEN conjunct2, THEN conjunct1, rule_format, OF pre])
  then have fails: "setupStream demo_pa 0 demo_block 48000 =
     Defined (Some (Exception ''AudioBlock::setupStream()''
                      ''Pa_IsFormatSupported: Invalid sample rate''),
              demo_block\<lparr>streamParams := (streamParams demo_block)\<lparr>suggestedLatency :=
                                               (2 / 100 + 6 / 100) / 2,
                                             hostApiSpecificStreamInfo := None\<rparr>\<rparr>, 0)"
    by (simp add: demo_pa_def demo_block_def demo_devices_def)
  have pre2: "Pa_GetDeviceInfo demo_pa 0 (device (streamParams demo_block)) = Some (demo_devices ! 1) \<and>
      (\<lambda>w inp outp r. if inp = None then Pa_IsFormatSupported demo_pa w inp outp r else - 1) 0
        (if isSink demo_block then None
         else Some ((streamParams demo_block)\<lparr>suggestedLatency :=
                (if isSink demo_block
                 then (defaultLowOutputLatency (demo_devices ! 1) +
                       defaultHighOutputLatency (demo_devices ! 1)) / 2
                 else (defaultLowInputLatency (demo_devices ! 1) +
                       defaultHighInputLatency (demo_devices ! 1)) / 2),
                hostApiSpecificStreamInfo := None\<rparr>))
        (if isSink demo_block
         then Some ((streamParams demo_block)\<lparr>suggestedLatency :=
                (if isSink demo_block
                 then (defaultLowOutputLatency (demo_devices ! 1) +
                       defaultHighOutputLatency (demo_devices ! 1)) / 2
                 else (defaultLowInputLatency (demo_devices ! 1) +
                       defaultHighInputLatency (demo_devices ! 1)) / 2),
                hostApiSpecificStreamInfo := None\<rparr>)
         else None) 44100 =
      Pa_IsFormatSupported demo_pa 0
        (if isSink demo_block then None
         else Some ((streamParams demo_block)\<lparr>suggestedLatency :=
                (if isSink demo_block
                 then (defaultLowOutputLatency (demo_devices ! 1) +
                       defaultHighOutputLatency (demo_devices ! 1)) / 2
                 else (defaultLowInputLatency (demo_devices ! 1) +
                       defaultHighInputLatency (demo_devices ! 1)) / 2),
                hostApiSpecificStreamInfo := None\<rparr>))
        (if isSink demo_block
         then Some ((streamParams demo_block)\<lparr>suggestedLatency :=
                (if isSink demo_block
                 then (defaultLowOutputLatency (demo_devices ! 1) +
                       defaultHighOutputLatency (demo_devices ! 1)) / 2
                 else (defaultLowInputLatency (demo_devices ! 1) +
                       defaultHighInputLatency (demo_devices ! 1)) / 2),
                hostApiSpecificStreamInfo := None\<rparr>)
         else None) 44100"
    using info by (simp add: demo_block_def)
  have same: "setupStream
     (demo_pa\<lparr>Pa_IsFormatSupported :=
        (\<lambda>w inp outp r. if inp = None then Pa_IsFormatSupported demo_pa w inp outp r else - 1)\<rparr>)
     0 demo_block 44100 = setupStream demo_pa 0 demo_block 44100"
    by (rule setupStream_negotiation [where pa = demo_pa and w = 0 and b = demo_block
      and sampRate = 44100 and d = "demo_devices ! 1"
      and chk = "\<lambda>w inp outp r. if inp = None then Pa_IsFormatSupported demo_pa w inp outp r else - 1",
      THEN conjunct2, THEN conjunct2, rule_format, OF pre2])
  from run info acc rej fails same show ?thesis by blast
qed

subsection \<open>Activation\<close>

text \<open>
  Claim C8 says that \<^verbatim>\<open>activate\<close> records the ready time only when the native start
  succeeds. The time is written first, before the native start is called, so a failed
  start leaves the new time in the block.
\<close>

theorem activate_ready_time_counterexample:
  "readyTime demo_block = 0 \<and>
   fst (activate (demo_pa\<lparr>Pa_StartStream := (\<lambda>w s. (- 9988, w))\<rparr>) 0 5 demo_block) =
     Some (Exception ''AudioBlock::activate()'' ''Pa_StartStream: Unanticipated host error'') \<and>
   readyTime (fst (snd (activate (demo_pa\<lparr>Pa_StartStream := (\<lambda>w s. (- 9988, w))\<rparr>) 0 5 demo_block))) = 5"
  by (simp add: activate_def demo_pa_def demo_block_def paNoError_def)

text \<open>
  Claim C8 as amended. \<^verbatim>\<open>activate\<close> writes the ready time on every call. When the
  native start reports no error the call also sets the label flag and succeeds. When it
  reports an error the call throws a \<^verbatim>\<open>Pothos::Exception\<close> whose text is
  \<^verbatim>\<open>Pa_StartStream: \<close> followed by the native text, and the block differs from the one
  before the call in the ready time only: the stream handle and the label flag are as
  they were.
\<close>

theorem activate_effects:
  "Pa_StartStream pa w (stream b) = (err, w') \<longrightarrow>
     (err = paNoError \<longrightarrow>
        activate pa w now b = (None, b\<lparr>readyTime := now, sendLabel := True\<rparr>, w')) \<and>
     (err \<noteq> paNoError \<longrightarrow>
        activate pa w now b =
          (Some (Exception ''AudioBlock::activate()''
                   (''Pa_StartStream: '' @ Pa_GetErrorText pa err)),
           b\<lparr>readyTime := now\<rparr>, w'))"
  by (simp add: activate_def Let_def)

theorem activate_effects_witness:
  "activate demo_pa 0 5 demo_block = (None, demo_block\<lparr>readyTime := 5, sendLabel := True\<rparr>, 0) \<and>
   activate (demo_pa\<lparr>Pa_StartStream := (\<lambda>w s. (- 9988, w))\<rparr>) 0 5 demo_block =
     (Some (Exception ''AudioBlock::activate()'' ''Pa_StartStream: Unanticipated host error''),
      demo_block\<lparr>readyTime := 5\<rparr>, 0)"
  using activate_effects [of demo_pa 0 demo_block 0 0 5]
    activate_effects [of "demo_pa\<lparr>Pa_StartStream := (\<lambda>w s. (- 9988, w))\<rparr>" 0 demo_block "- 9988" 0 5]
  by (simp add: demo_pa_def paNoError_def)

subsection \<open>Report mode\<close>

text \<open>
  Claim C9. \<^verbatim>\<open>setReportMode\<close> accepts the three strings \<^verbatim>\<open>LOGGER\<close>, \<^verbatim>\<open>STDERROR\<close> and
  \<^verbatim>\<open>DISABLED\<close> and no other: any other argument throws
  \<^verbatim>\<open>InvalidArgumentException\<close> and leaves the block unchanged. An accepted mode sets the
  logger flag exactly when it is \<^verbatim>\<open>LOGGER\<close> and the stderr flag exactly when it is
  \<^verbatim>\<open>STDERROR\<close>, whatever the flags were, so the two are never both set; after
  \<^verbatim>\<open>LOGGER\<close> and then \<^verbatim>\<open>STDERROR\<close> the stderr flag is set and the logger flag is not.
\<close>

theorem setReportMode_modes:
  "(mode \<noteq> ''LOGGER'' \<and> mode \<noteq> ''STDERROR'' \<and> mode \<noteq> ''DISABLED'' \<longrightarrow>
      setReportMode b mode =
        (Some (InvalidArgumentException (''AudioBlock::setReportMode('' @ mode @ '')'')
                 ''unknown report mode''), b)) \<and>
   (mode = ''LOGGER'' \<or> mode = ''STDERROR'' \<or> mode = ''DISABLED'' \<longrightarrow>
      fst (setReportMode b mode) = None \<and>
      reportLogger (snd (setReportMode b mode)) = (mode = ''LOGGER'') \<and>
      reportStderror (snd (setReportMode b mode)) = (mode = ''STDERROR'') \<and>
      \<not> (reportLogger (snd (setReportMode b mode)) \<and>
         reportStderror (snd (setReportMode b mode)))) \<and>
   fst (setReportMode b ''LOGGER'') = None \<and>
   fst (setReportMode (snd (setReportMode b ''LOGGER'')) ''STDERROR'') = None \<and>
   reportStderror (snd (setReportMode (snd (setReportMode b ''LOGGER'')) ''STDERROR'')) \<and>
   \<not> reportLogger (snd (setReportMode (snd (setReportMode b ''LOGGER'')) ''STDERROR''))"
  by (auto simp: setReportMode_def)

theorem setReportMode_modes_witness:
  "setReportMode demo_block ''logger'' =
     (Some (InvalidArgumentException ''AudioBlock::setReportMode(logger)''
              ''unknown report mode''), demo_block) \<and>
   fst (setReportMode demo_block ''DISABLED'') = None \<and>
   \<not> reportLogger (snd (setReportMode demo_block ''DISABLED'')) \<and>
   \<not> reportStderror (snd (setReportMode demo_block ''DISABLED'')) \<and>
   reportLogger (snd (setReportMode demo_block ''LOGGER'')) \<and>
   \<not> reportStderror (snd (setReportMode demo_block ''LOGGER'')) \<and>
   reportStderror (snd (setReportMode (snd (setReportMode demo_block ''LOGGER'')) ''STDERROR'')) \<and>
   \<not> reportLogger (snd (setReportMode (snd (setReportMode demo_block ''LOGGER'')) ''STDERROR''))"
  using setReportMode_modes [of "''logger''" demo_block]
    setReportMode_modes [of "''DISABLED''" demo_block]
    setReportMode_modes [of "''LOGGER''" demo_block]
  by simp

text \<open>
  Claim C10. Every block that the constructor returns reports to stderr and not to the
  logger, whatever the storage held before.
\<close>

theorem ctor_report_mode:
  "fst (AudioBlock_ctor pa w mem blockName' isSink' dtype numChans chanMode) = Inr b \<Longrightarrow>
     reportStderror b \<and> \<not> reportLogger b"
  by (auto simp: AudioBlock_ctor_def Let_def split: prod.splits if_splits)

theorem ctor_report_mode_witness:
  "fst (AudioBlock_ctor demo_pa 0 demo_mem ''sink'' True (DType ''float32'') 2 ''INTERLEAVED'') =
     Inr (demo_block\<lparr>streamParams := (streamParams demo_block)\<lparr>device := 0\<rparr>\<rparr>) \<and>
   reportLogger demo_mem \<and> \<not> reportStderror demo_mem \<and>
   reportStderror (demo_block\<lparr>streamParams := (streamParams demo_block)\<lparr>device := 0\<rparr>\<rparr>) \<and>
   \<not> reportLogger (demo_block\<lparr>streamParams := (streamParams demo_block)\<lparr>device := 0\<rparr>\<rparr>)"
proof -
  have run: "fst (AudioBlock_ctor demo_pa 0 demo_mem ''sink'' True (DType ''float32'') 2 ''INTERLEAVED'') =
     Inr (demo_block\<lparr>streamParams := (streamParams demo_block)\<lparr>device := 0\<rparr>\<rparr>)"
    by (simp add: AudioBlock_ctor_def demo_pa_def demo_mem_def demo_block_def DType_def paNoError_def)
  from ctor_report_mode [OF run] run show ?thesis by (simp add: demo_mem_def)
qed

end
